theory Spec2Isabelle
  imports Complex_Main "HOL-Library.Word"
begin

unbundle bit_operations_syntax

section \<open>The Adafruit MPRLS pressure sensor driver\<close>

text \<open>
  A shallow embedding of \<^verbatim>\<open>Adafruit_MPRLS.h\<close> and \<^verbatim>\<open>Adafruit_MPRLS.cpp\<close>.

  \<^item> The fixed-width integers of the driver are words: \<^verbatim>\<open>uint8_t\<close> is \<open>8 word\<close>,
    \<^verbatim>\<open>uint16_t\<close> is \<open>16 word\<close>, \<^verbatim>\<open>uint32_t\<close> is \<open>32 word\<close>. An \<^verbatim>\<open>int8_t\<close> pin number is an
    \<open>8 word\<close> in two's complement, so that \<open>-1\<close> is the unset pin. Unsigned arithmetic
    wraps around, as in C++.
  \<^item> \<^verbatim>\<open>int\<close> is taken to be 32 bits wide (the ARM, ESP and RP2040 cores). It matters in
    one place only, the difference \<^verbatim>\<open>_PSI_max - _PSI_min\<close>, and only when
    \<^verbatim>\<open>_PSI_max < _PSI_min\<close>.
  \<^item> A \<^verbatim>\<open>float\<close> that the driver computes is a \<open>cfloat\<close>: either the \<^verbatim>\<open>NAN\<close>
    sentinel or a real number. The arithmetic on numbers is the exact arithmetic of the
    reals: rounding to 24 significant bits and overflow to infinity are not modelled. The
    \<^verbatim>\<open>float\<close> parameters of the constructor are finite numbers, hence of type \<open>real\<close>.
  \<^item> The hardware is an environment \<open>env\<close> of oracles: what the k-th bus read, the k-th
    sample of a pin and the k-th call of \<^verbatim>\<open>millis()\<close> return. The \<open>world\<close> counts the
    calls made so far and logs what the driver sent. \<^verbatim>\<open>Adafruit_I2CDevice\<close> is not among
    the sources: a read is taken to deliver the bytes the sensor sends (the driver ignores
    the result of \<^verbatim>\<open>read\<close> and \<^verbatim>\<open>write\<close>), and whether the device opens is the flag
    \<open>i2c_begin_ok\<close> of the environment.
  \<^item> The two busy-wait loops of \<^verbatim>\<open>readData\<close> need not terminate (the pin may stay low
    while the clock stands still), so they are partial functions into \<open>option\<close>:
    \<open>None\<close> is the loop that never exits.
\<close>

subsection \<open>Constants of the header\<close>

definition MPRLS_DEFAULT_ADDR :: "8 word" where
  "MPRLS_DEFAULT_ADDR = 0x18"

definition MPRLS_READ_TIMEOUT :: "32 word" where
  "MPRLS_READ_TIMEOUT = 20"

definition MPRLS_STATUS_POWERED :: "8 word" where
  "MPRLS_STATUS_POWERED = 0x40"

definition MPRLS_STATUS_BUSY :: "8 word" where
  "MPRLS_STATUS_BUSY = 0x20"

definition MPRLS_STATUS_FAILED :: "8 word" where
  "MPRLS_STATUS_FAILED = 0x04"

definition MPRLS_STATUS_MATHSAT :: "8 word" where
  "MPRLS_STATUS_MATHSAT = 0x01"

definition COUNTS_224 :: real where
  "COUNTS_224 = 16777216"

definition PSI_to_HPA :: real where
  "PSI_to_HPA = 68947572932 / 1000000000"

definition MPRLS_STATUS_MASK :: "8 word" where
  "MPRLS_STATUS_MASK = 0x65"

subsection \<open>Data\<close>

datatype cfloat = NaN | Num real

text \<open>The fields of \<^verbatim>\<open>class Adafruit_MPRLS\<close>. \<open>i2c_dev\<close> is the bus address of the
  device object, \<open>None\<close> for the \<^verbatim>\<open>NULL\<close> pointer.\<close>

record sensor =
  lastStatus :: "8 word"
  i2c_dev :: "8 word option"
  reset :: "8 word"
  eoc :: "8 word"
  PSI_min :: "16 word"
  PSI_max :: "16 word"
  OUTPUT_min :: "32 word"
  OUTPUT_max :: "32 word"
  K :: real

text \<open>The four bytes the sensor sends when it is read: the status byte, then the 24-bit
  count, most significant byte first. A read of one byte takes the first of them.\<close>

record frame =
  b0 :: "8 word"
  b1 :: "8 word"
  b2 :: "8 word"
  b3 :: "8 word"

record env =
  i2c_begin_ok :: bool
  i2c_read_at :: "nat \<Rightarrow> frame"
  digitalRead_at :: "8 word \<Rightarrow> nat \<Rightarrow> bool"
  millis_at :: "nat \<Rightarrow> 32 word"

datatype pin_mode = INPUT | OUTPUT

datatype level = LOW | HIGH

datatype event =
    PinMode "8 word" pin_mode
  | DigitalWrite "8 word" level
  | Delay nat
  | I2CWrite "8 word list"

record world =
  n_reads :: nat
  n_pin :: nat
  n_millis :: nat
  sent :: "event list"

definition emit :: "event \<Rightarrow> world \<Rightarrow> world" where
  "emit e w = w\<lparr>sent := sent w @ [e]\<rparr>"

text \<open>\<^verbatim>\<open>i2c_dev->read(buffer, n)\<close>, \<^verbatim>\<open>digitalRead(pin)\<close> and \<^verbatim>\<open>millis()\<close>: each takes the
  next answer of its oracle.\<close>

definition i2c_read :: "env \<Rightarrow> world \<Rightarrow> frame \<times> world" where
  "i2c_read e w = (i2c_read_at e (n_reads w), w\<lparr>n_reads := Suc (n_reads w)\<rparr>)"

definition digitalRead :: "env \<Rightarrow> 8 word \<Rightarrow> world \<Rightarrow> bool \<times> world" where
  "digitalRead e p w = (digitalRead_at e p (n_pin w), w\<lparr>n_pin := Suc (n_pin w)\<rparr>)"

definition millis :: "env \<Rightarrow> world \<Rightarrow> 32 word \<times> world" where
  "millis e w = (millis_at e (n_millis w), w\<lparr>n_millis := Suc (n_millis w)\<rparr>)"

subsection \<open>The constructor\<close>

text \<open>The cast \<^verbatim>\<open>(uint32_t)x\<close> of a floating-point value drops the fraction (rounds
  towards zero). C++ defines it only when the result fits the type; outside that range the
  model wraps around.\<close>

definition cast_u32 :: "real \<Rightarrow> 32 word" where
  "cast_u32 x = word_of_int (if 0 \<le> x then \<lfloor>x\<rfloor> else \<lceil>x\<rceil>)"

definition counts_of_percent :: "real \<Rightarrow> 32 word" where
  "counts_of_percent p = cast_u32 (COUNTS_224 * (p / 100) + 1 / 2)"

text \<open>The constructor assigns neither \<^verbatim>\<open>lastStatus\<close> nor \<^verbatim>\<open>i2c_dev\<close>: the first is
  indeterminate (\<open>ls0\<close> is the byte it happens to hold), the second is \<^verbatim>\<open>NULL\<close> by its
  initialiser in the header.\<close>

definition Adafruit_MPRLS ::
  "8 word \<Rightarrow> 8 word \<Rightarrow> 8 word \<Rightarrow> 16 word \<Rightarrow> 16 word \<Rightarrow> real \<Rightarrow> real \<Rightarrow> real \<Rightarrow> sensor" where
  "Adafruit_MPRLS ls0 reset_pin EOC_pin PSI_min' PSI_max' OUTPUT_min' OUTPUT_max' K' =
     \<lparr> lastStatus = ls0,
       i2c_dev = None,
       reset = reset_pin,
       eoc = EOC_pin,
       PSI_min = PSI_min',
       PSI_max = PSI_max',
       OUTPUT_min = counts_of_percent OUTPUT_min',
       OUTPUT_max = counts_of_percent OUTPUT_max',
       K = K' \<rparr>"

text \<open>The constructor with the default arguments of the header.\<close>

definition default_sensor :: "8 word \<Rightarrow> sensor" where
  "default_sensor ls0 = Adafruit_MPRLS ls0 (-1) (-1) 0 25 10 90 PSI_to_HPA"

subsection \<open>Reading the status\<close>

definition readStatus :: "env \<Rightarrow> sensor \<Rightarrow> world \<Rightarrow> 8 word \<times> sensor \<times> world" where
  "readStatus e s w = (case i2c_read e w of (f, w') \<Rightarrow> (b0 f, s, w'))"

subsection \<open>begin\<close>

definition pulse_reset :: "sensor \<Rightarrow> world \<Rightarrow> world" where
  "pulse_reset s w =
     (if reset s \<noteq> -1
      then emit (DigitalWrite (reset s) HIGH)
             (emit (Delay 10)
               (emit (DigitalWrite (reset s) LOW)
                 (emit (DigitalWrite (reset s) HIGH)
                   (emit (PinMode (reset s) OUTPUT) w))))
      else w)"

definition setup_eoc :: "sensor \<Rightarrow> world \<Rightarrow> world" where
  "setup_eoc s w = (if eoc s \<noteq> -1 then emit (PinMode (eoc s) INPUT) w else w)"

definition begin_mprls :: "env \<Rightarrow> 8 word \<Rightarrow> sensor \<Rightarrow> world \<Rightarrow> bool \<times> sensor \<times> world" where
  "begin_mprls e i2c_addr s w =
     (let s1 = s\<lparr>i2c_dev := Some i2c_addr\<rparr> in
      if \<not> i2c_begin_ok e then (False, s1, w)
      else
        (case readStatus e s1 (emit (Delay 10) (setup_eoc s1 (pulse_reset s1 w))) of
           (st, s2, w2) \<Rightarrow> ((st AND MPRLS_STATUS_MASK) = MPRLS_STATUS_POWERED, s2, w2)))"

subsection \<open>readData\<close>

text \<open>The pin-based wait: \<^verbatim>\<open>while (!digitalRead(_eoc)) { if (millis() - t > TIMEOUT) return ...; }\<close>.
  The result is \<open>True\<close> when the loop exits (the pin read high) and \<open>False\<close> when it
  returns the time-out from inside.\<close>

partial_function (option) wait_eoc ::
  "env \<Rightarrow> 32 word \<Rightarrow> sensor \<Rightarrow> world \<Rightarrow> (bool \<times> sensor \<times> world) option" where
  "wait_eoc e t s w =
     (case digitalRead e (eoc s) w of
        (ready, w1) \<Rightarrow>
          if ready then Some (True, s, w1)
          else (case millis e w1 of
                  (now, w2) \<Rightarrow>
                    if now - t > MPRLS_READ_TIMEOUT then Some (False, s, w2)
                    else wait_eoc e t s w2))"

text \<open>The assignment \<^verbatim>\<open>lastStatus = readStatus()\<close> in the condition of the
  status-polling loop.\<close>

definition poll_status :: "env \<Rightarrow> sensor \<Rightarrow> world \<Rightarrow> 8 word \<times> sensor \<times> world" where
  "poll_status e s w =
     (case readStatus e s w of (st, s1, w1) \<Rightarrow> (st, s1\<lparr>lastStatus := st\<rparr>, w1))"

text \<open>The status-polling wait:
  \<^verbatim>\<open>while ((lastStatus = readStatus()) & MPRLS_STATUS_BUSY) { if (millis() - t > TIMEOUT) return ...; }\<close>.\<close>

partial_function (option) wait_status ::
  "env \<Rightarrow> 32 word \<Rightarrow> sensor \<Rightarrow> world \<Rightarrow> (bool \<times> sensor \<times> world) option" where
  "wait_status e t s w =
     (case poll_status e s w of
        (st, s1, w1) \<Rightarrow>
          if (st AND MPRLS_STATUS_BUSY) \<noteq> 0
          then (case millis e w1 of
                  (now, w2) \<Rightarrow>
                    if now - t > MPRLS_READ_TIMEOUT then Some (False, s1, w2)
                    else wait_status e t s1 w2)
          else Some (True, s1, w1))"

declare wait_eoc.simps [code]
declare wait_status.simps [code]

definition wait_ready ::
  "env \<Rightarrow> 32 word \<Rightarrow> sensor \<Rightarrow> world \<Rightarrow> (bool \<times> sensor \<times> world) option" where
  "wait_ready e t s w = (if eoc s \<noteq> -1 then wait_eoc e t s w else wait_status e t s w)"

text \<open>The checks of the status byte and the assembly of the count, from the four bytes of
  the final read.\<close>

definition decode :: "frame \<Rightarrow> 32 word" where
  "decode f =
     (if (b0 f AND MPRLS_STATUS_MATHSAT) \<noteq> 0 then 0xFFFFFFFF
      else if (b0 f AND MPRLS_STATUS_FAILED) \<noteq> 0 then 0xFFFFFFFF
      else push_bit 16 (ucast (b1 f)) OR push_bit 8 (ucast (b2 f)) OR ucast (b3 f))"

definition read_frame :: "env \<Rightarrow> sensor \<Rightarrow> world \<Rightarrow> 32 word \<times> sensor \<times> world" where
  "read_frame e s w = (case i2c_read e w of (f, w') \<Rightarrow> (decode f, s, w'))"

text \<open>The head of \<^verbatim>\<open>readData\<close>: the command \<^verbatim>\<open>0xAA 0x00 0x00\<close> is written to the
  bus, then \<^verbatim>\<open>t = millis()\<close>.\<close>

definition start_conversion :: "env \<Rightarrow> world \<Rightarrow> 32 word \<times> world" where
  "start_conversion e w = millis e (emit (I2CWrite [0xAA, 0, 0]) w)"

definition readData :: "env \<Rightarrow> sensor \<Rightarrow> world \<Rightarrow> (32 word \<times> sensor \<times> world) option" where
  "readData e s w =
     (case start_conversion e w of
        (t, w1) \<Rightarrow>
          (case wait_ready e t s w1 of
             None \<Rightarrow> None
           | Some (ready, s2, w2) \<Rightarrow>
               if ready then Some (read_frame e s2 w2) else Some (0xFFFFFFFF, s2, w2)))"

subsection \<open>readPressure\<close>

text \<open>\<^verbatim>\<open>(_PSI_max - _PSI_min)\<close>: both operands are promoted to \<^verbatim>\<open>int\<close>, and the
  difference is converted to \<^verbatim>\<open>uint32_t\<close> for the product with the unsigned count.\<close>

definition psi_span :: "sensor \<Rightarrow> 32 word" where
  "psi_span s = ucast (PSI_max s) - ucast (PSI_min s)"

text \<open>\<^verbatim>\<open>(raw_psi - _OUTPUT_min) * (_PSI_max - _PSI_min)\<close>, evaluated in \<^verbatim>\<open>uint32_t\<close>
  before it is converted to \<^verbatim>\<open>float\<close>.\<close>

definition psi_numerator :: "sensor \<Rightarrow> 32 word \<Rightarrow> 32 word" where
  "psi_numerator s raw_psi = (raw_psi - OUTPUT_min s) * psi_span s"

definition convert :: "sensor \<Rightarrow> 32 word \<Rightarrow> cfloat" where
  "convert s raw_psi =
     (if raw_psi = 0xFFFFFFFF \<or> OUTPUT_min s = OUTPUT_max s then NaN
      else Num ((real_of_int (uint (psi_numerator s raw_psi))
                   / real_of_int (uint (OUTPUT_max s - OUTPUT_min s))
                 + real_of_int (uint (PSI_min s))) * K s))"

definition readPressure :: "env \<Rightarrow> sensor \<Rightarrow> world \<Rightarrow> (cfloat \<times> sensor \<times> world) option" where
  "readPressure e s w =
     (case readData e s w of
        None \<Rightarrow> None
      | Some (raw_psi, s', w') \<Rightarrow> Some (convert s' raw_psi, s', w'))"

subsection \<open>The formula of the specification\<close>

text \<open>The pressure as the specification writes it, over the numbers the fields hold and
  in the arithmetic of the reals:
  \<^verbatim>\<open>((raw - outputMinCounts) * (psiMax - psiMin) / (outputMaxCounts - outputMinCounts) + psiMin) * scaleFactor\<close>.
  It follows the words of the specification, not the code; \<open>convert\<close> above is the code.\<close>

definition spec_pressure :: "sensor \<Rightarrow> 32 word \<Rightarrow> real" where
  "spec_pressure s raw =
     ((real_of_int (uint raw) - real_of_int (uint (OUTPUT_min s)))
        * (real_of_int (uint (PSI_max s)) - real_of_int (uint (PSI_min s)))
        / (real_of_int (uint (OUTPUT_max s)) - real_of_int (uint (OUTPUT_min s)))
      + real_of_int (uint (PSI_min s))) * K s"

subsection \<open>Example sensors and environments\<close>

text \<open>A sensor with the end-of-conversion signal wired to pin 5, and four pieces of hardware:
  one that is ready at once and delivers the count \<open>0x800000\<close>, one that reports math
  saturation in the frame it delivers, one that stays busy for ever, and one that is busy
  for two polls (status \<open>0x60\<close>, then \<open>0x70\<close>, pin low) and ready at the third. The clock
  of each advances by 7 ms from one call of \<^verbatim>\<open>millis()\<close> to the next.\<close>

definition sensor_eoc :: sensor where
  "sensor_eoc = Adafruit_MPRLS 0 (-1) 5 0 25 10 90 PSI_to_HPA"

definition world0 :: world where
  "world0 = \<lparr> n_reads = 0, n_pin = 0, n_millis = 0, sent = [] \<rparr>"

definition world1 :: world where
  "world1 = \<lparr> n_reads = 0, n_pin = 0, n_millis = 1, sent = [I2CWrite [0xAA, 0, 0]] \<rparr>"

definition env_ok :: env where
  "env_ok =
     \<lparr> i2c_begin_ok = True,
       i2c_read_at = (\<lambda>k. \<lparr> b0 = 0x40, b1 = 0x80, b2 = 0, b3 = 0 \<rparr>),
       digitalRead_at = (\<lambda>p k. True),
       millis_at = (\<lambda>k. word_of_nat (7 * k)) \<rparr>"

definition env_fault :: env where
  "env_fault =
     \<lparr> i2c_begin_ok = True,
       i2c_read_at = (\<lambda>k. if k = 0 then \<lparr> b0 = 0x40, b1 = 0, b2 = 0, b3 = 0 \<rparr>
                            else \<lparr> b0 = 0x41, b1 = 0x12, b2 = 0x34, b3 = 0x56 \<rparr>),
       digitalRead_at = (\<lambda>p k. True),
       millis_at = (\<lambda>k. word_of_nat (7 * k)) \<rparr>"

definition env_stuck :: env where
  "env_stuck =
     \<lparr> i2c_begin_ok = True,
       i2c_read_at = (\<lambda>k. \<lparr> b0 = 0x60, b1 = 0, b2 = 0, b3 = 0 \<rparr>),
       digitalRead_at = (\<lambda>p k. False),
       millis_at = (\<lambda>k. word_of_nat (7 * k)) \<rparr>"

definition env_poll :: env where
  "env_poll =
     \<lparr> i2c_begin_ok = True,
       i2c_read_at = (\<lambda>k. if k = 0 then \<lparr> b0 = 0x60, b1 = 0, b2 = 0, b3 = 0 \<rparr>
                            else if k = 1 then \<lparr> b0 = 0x70, b1 = 0, b2 = 0, b3 = 0 \<rparr>
                            else \<lparr> b0 = 0x40, b1 = 0x80, b2 = 0, b3 = 0 \<rparr>),
       digitalRead_at = (\<lambda>p k. 2 \<le> k),
       millis_at = (\<lambda>k. word_of_nat (7 * k)) \<rparr>"

section \<open>Properties\<close>

subsection \<open>Status bits\<close>

lemma and_mathsat_bit: "(x AND MPRLS_STATUS_MATHSAT) \<noteq> 0 \<longleftrightarrow> bit x 0"
  using and_exp_eq_0_iff_not_bit [of x 0] by (simp add: MPRLS_STATUS_MATHSAT_def)

lemma and_failed_bit: "(x AND MPRLS_STATUS_FAILED) \<noteq> 0 \<longleftrightarrow> bit x 2"
  using and_exp_eq_0_iff_not_bit [of x 2] by (simp add: MPRLS_STATUS_FAILED_def)

lemma and_busy_bit: "(x AND MPRLS_STATUS_BUSY) \<noteq> 0 \<longleftrightarrow> bit x 5"
  using and_exp_eq_0_iff_not_bit [of x 5] by (simp add: MPRLS_STATUS_BUSY_def)

lemma decode_fault: "bit (b0 f) 0 \<or> bit (b0 f) 2 \<Longrightarrow> decode f = 0xFFFFFFFF"
  by (auto simp: decode_def and_mathsat_bit and_failed_bit)

lemma decode_ok:
  "\<not> bit (b0 f) 0 \<Longrightarrow> \<not> bit (b0 f) 2 \<Longrightarrow>
     decode f = push_bit 16 (ucast (b1 f)) OR push_bit 8 (ucast (b2 f)) OR ucast (b3 f)"
  by (simp add: decode_def and_mathsat_bit and_failed_bit)

lemma assemble_less:
  fixes x y z :: "8 word"
  shows "(push_bit 16 (ucast x) OR push_bit 8 (ucast y) OR ucast z :: 32 word) < 2 ^ 24"
proof -
  let ?v = "push_bit 16 (ucast x) OR push_bit 8 (ucast y) OR ucast z :: 32 word"
  have "?v AND mask 24 = ?v"
    by (rule bit_eqI) (auto simp: bit_simps dest: bit_imp_le_length)
  moreover have "?v AND mask 24 < 2 ^ 24"
    by (rule and_mask_less') simp
  ultimately show ?thesis by simp
qed

subsection \<open>The wait loops\<close>

lemma poll_status_eq:
  "poll_status e s w =
     (b0 (i2c_read_at e (n_reads w)), s\<lparr>lastStatus := b0 (i2c_read_at e (n_reads w))\<rparr>,
      w\<lparr>n_reads := Suc (n_reads w)\<rparr>)"
  by (simp add: poll_status_def readStatus_def i2c_read_def)

lemma wait_eoc_frame:
  assumes "wait_eoc e t s w = Some y"
  shows "fst (snd y) = s \<and> n_reads (snd (snd y)) = n_reads w"
  by (rule wait_eoc.raw_induct [OF _ assms])
     (auto simp: digitalRead_def millis_def split: prod.splits if_splits)

lemma wait_status_frame:
  assumes "wait_status e t s w = Some y"
  shows "n_reads w < n_reads (snd (snd y)) \<and>
     fst (snd y) = s\<lparr>lastStatus := b0 (i2c_read_at e (n_reads (snd (snd y)) - 1))\<rparr>"
proof (rule wait_status.raw_induct [OF _ assms])
  fix f e t s w y
  assume IH: "\<And>e t s w y. f e t s w = Some y \<Longrightarrow>
            n_reads w < n_reads (snd (snd y)) \<and>
            fst (snd y) = s\<lparr>lastStatus := b0 (i2c_read_at e (n_reads (snd (snd y)) - 1))\<rparr>"
    and body: "(case poll_status e s w of
        (st, s1, w1) \<Rightarrow>
          if (st AND MPRLS_STATUS_BUSY) \<noteq> 0
          then (case millis e w1 of
                  (now, w2) \<Rightarrow>
                    if now - t > MPRLS_READ_TIMEOUT then Some (False, s1, w2)
                    else f e t s1 w2)
          else Some (True, s1, w1)) = Some y"
  let ?st = "b0 (i2c_read_at e (n_reads w))"
  let ?s1 = "s\<lparr>lastStatus := ?st\<rparr>"
  let ?w2 = "w\<lparr>n_reads := Suc (n_reads w), n_millis := Suc (n_millis w)\<rparr>"
  consider (ready) "(?st AND MPRLS_STATUS_BUSY) = 0"
    | (timeout) "(?st AND MPRLS_STATUS_BUSY) \<noteq> 0" "millis_at e (n_millis w) - t > MPRLS_READ_TIMEOUT"
    | (again) "(?st AND MPRLS_STATUS_BUSY) \<noteq> 0" "\<not> millis_at e (n_millis w) - t > MPRLS_READ_TIMEOUT"
    by blast
  then show "n_reads w < n_reads (snd (snd y)) \<and>
     fst (snd y) = s\<lparr>lastStatus := b0 (i2c_read_at e (n_reads (snd (snd y)) - 1))\<rparr>"
  proof cases
    case ready
    with body have "y = (True, ?s1, w\<lparr>n_reads := Suc (n_reads w)\<rparr>)"
      by (simp add: poll_status_eq)
    then show ?thesis by simp
  next
    case timeout
    with body have "y = (False, ?s1, ?w2)"
      by (simp add: poll_status_eq millis_def)
    then show ?thesis by simp
  next
    case again
    with body have "f e t ?s1 ?w2 = Some y"
      by (simp add: poll_status_eq millis_def)
    from IH [OF this] show ?thesis by simp
  qed
qed



text \<open>The loops after \<open>n\<close> iterations that neither found the sensor ready nor the time
  expired: what iteration \<open>n + 1\<close> does.\<close>

lemma wait_status_unfold:
  assumes "\<forall>j<n. bit (b0 (i2c_read_at e (n_reads w + j))) 5 \<and>
                 \<not> MPRLS_READ_TIMEOUT < millis_at e (n_millis w + j) - t"
  shows "wait_status e t s w =
     (if \<not> bit (b0 (i2c_read_at e (n_reads w + n))) 5
      then Some (True, s\<lparr>lastStatus := b0 (i2c_read_at e (n_reads w + n))\<rparr>,
                 w\<lparr>n_reads := n_reads w + Suc n, n_millis := n_millis w + n\<rparr>)
      else if MPRLS_READ_TIMEOUT < millis_at e (n_millis w + n) - t
      then Some (False, s\<lparr>lastStatus := b0 (i2c_read_at e (n_reads w + n))\<rparr>,
                 w\<lparr>n_reads := n_reads w + Suc n, n_millis := n_millis w + Suc n\<rparr>)
      else wait_status e t (s\<lparr>lastStatus := b0 (i2c_read_at e (n_reads w + n))\<rparr>)
             (w\<lparr>n_reads := n_reads w + Suc n, n_millis := n_millis w + Suc n\<rparr>))"
  using assms
proof (induction n arbitrary: s w)
  case 0
  show ?case
    by (subst wait_status.simps) (simp add: poll_status_eq millis_def and_busy_bit)
next
  case (Suc n)
  let ?s1 = "s\<lparr>lastStatus := b0 (i2c_read_at e (n_reads w))\<rparr>"
  let ?w2 = "w\<lparr>n_reads := Suc (n_reads w), n_millis := Suc (n_millis w)\<rparr>"
  from Suc.prems have first: "bit (b0 (i2c_read_at e (n_reads w))) 5"
      "\<not> MPRLS_READ_TIMEOUT < millis_at e (n_millis w) - t"
    by (metis add.right_neutral zero_less_Suc)+
  have step: "wait_status e t s w = wait_status e t ?s1 ?w2"
    using first by (subst wait_status.simps) (simp add: poll_status_eq millis_def and_busy_bit)
  have "\<forall>j<n. bit (b0 (i2c_read_at e (n_reads ?w2 + j))) 5 \<and>
                 \<not> MPRLS_READ_TIMEOUT < millis_at e (n_millis ?w2 + j) - t"
    using Suc.prems by auto
  from Suc.IH [OF this, of ?s1] show ?case
    by (simp add: step)
qed

lemma wait_eoc_unfold:
  assumes "\<forall>j<n. \<not> digitalRead_at e (eoc s) (n_pin w + j) \<and>
                 \<not> MPRLS_READ_TIMEOUT < millis_at e (n_millis w + j) - t"
  shows "wait_eoc e t s w =
     (if digitalRead_at e (eoc s) (n_pin w + n)
      then Some (True, s, w\<lparr>n_pin := n_pin w + Suc n, n_millis := n_millis w + n\<rparr>)
      else if MPRLS_READ_TIMEOUT < millis_at e (n_millis w + n) - t
      then Some (False, s, w\<lparr>n_pin := n_pin w + Suc n, n_millis := n_millis w + Suc n\<rparr>)
      else wait_eoc e t s (w\<lparr>n_pin := n_pin w + Suc n, n_millis := n_millis w + Suc n\<rparr>))"
  using assms
proof (induction n arbitrary: w)
  case 0
  show ?case
    by (subst wait_eoc.simps) (simp add: digitalRead_def millis_def)
next
  case (Suc n)
  let ?w2 = "w\<lparr>n_pin := Suc (n_pin w), n_millis := Suc (n_millis w)\<rparr>"
  from Suc.prems have first: "\<not> digitalRead_at e (eoc s) (n_pin w)"
      "\<not> MPRLS_READ_TIMEOUT < millis_at e (n_millis w) - t"
    by (metis add.right_neutral zero_less_Suc)+
  have step: "wait_eoc e t s w = wait_eoc e t s ?w2"
    using first by (subst wait_eoc.simps) (simp add: digitalRead_def millis_def)
  have "\<forall>j<n. \<not> digitalRead_at e (eoc s) (n_pin ?w2 + j) \<and>
                 \<not> MPRLS_READ_TIMEOUT < millis_at e (n_millis ?w2 + j) - t"
    using Suc.prems by auto
  from Suc.IH [OF this] show ?case
    by (simp add: step)
qed

lemma wait_status_not_busy:
  assumes "(b0 (i2c_read_at e (n_reads w)) AND MPRLS_STATUS_BUSY) = 0"
  shows "wait_status e t s w =
           Some (True, s\<lparr>lastStatus := b0 (i2c_read_at e (n_reads w))\<rparr>,
                 w\<lparr>n_reads := Suc (n_reads w)\<rparr>)"
  using assms by (subst wait_status.simps) (simp add: poll_status_eq)

lemma wait_eoc_high:
  assumes "digitalRead_at e (eoc s) (n_pin w)"
  shows "wait_eoc e t s w = Some (True, s, w\<lparr>n_pin := Suc (n_pin w)\<rparr>)"
  using assms by (subst wait_eoc.simps) (simp add: digitalRead_def)

lemma wait_ready_frame:
  assumes "wait_ready e t s w = Some (r, s', w')"
  shows "s' = s\<lparr>lastStatus := lastStatus s'\<rparr>"
proof (cases "eoc s = -1")
  case True
  with assms have "wait_status e t s w = Some (r, s', w')"
    by (simp add: wait_ready_def)
  from wait_status_frame [OF this]
  have "s' = s\<lparr>lastStatus := b0 (i2c_read_at e (n_reads w' - 1))\<rparr>"
    by simp
  then show ?thesis
    by (metis sensor.select_convs(1) sensor.surjective sensor.update_convs(1))
next
  case False
  with assms have "wait_eoc e t s w = Some (r, s', w')"
    by (simp add: wait_ready_def)
  from wait_eoc_frame [OF this] show ?thesis by simp
qed

subsection \<open>readData, step by step\<close>

lemma start_conversion_eq:
  "start_conversion e w =
     (millis_at e (n_millis w),
      w\<lparr>n_millis := Suc (n_millis w), sent := sent w @ [I2CWrite [0xAA, 0, 0]]\<rparr>)"
  by (simp add: start_conversion_def millis_def emit_def)

lemma start_conversion_world0:
  "start_conversion e world0 = (millis_at e 0, world1)"
  by (simp add: start_conversion_eq world0_def world1_def)

lemma readData_ready:
  assumes "start_conversion e w = (t, w1)" and "wait_ready e t s w1 = Some (True, s2, w2)"
  shows "readData e s w =
           Some (decode (i2c_read_at e (n_reads w2)), s2, w2\<lparr>n_reads := Suc (n_reads w2)\<rparr>)"
  using assms by (simp add: readData_def read_frame_def i2c_read_def)


lemma eoc_default_sensor: "eoc (default_sensor ls) = -1"
  by (simp add: default_sensor_def Adafruit_MPRLS_def)

lemma eoc_sensor_eoc: "eoc sensor_eoc = 5"
  by (simp add: sensor_eoc_def Adafruit_MPRLS_def)

subsection \<open>Runs on the example hardware\<close>

lemma start_ok: "start_conversion env_ok world0 = (0, world1)"
  by (simp add: start_conversion_world0) (simp add: env_ok_def)

lemma wait_ok_poll:
  "wait_ready env_ok 0 (default_sensor 0) world1
     = Some (True, (default_sensor 0)\<lparr>lastStatus := 0x40\<rparr>, world1\<lparr>n_reads := 1\<rparr>)"
  by (simp add: wait_ready_def eoc_default_sensor)
     (subst wait_status_not_busy, simp_all add: env_ok_def world1_def MPRLS_STATUS_BUSY_def)

lemma wait_ok_eoc:
  "wait_ready env_ok 0 sensor_eoc world1 = Some (True, sensor_eoc, world1\<lparr>n_pin := 1\<rparr>)"
  by (simp add: wait_ready_def eoc_sensor_eoc)
     (subst wait_eoc_high, simp_all add: env_ok_def world1_def)




lemma readData_ok_default:
  "readData env_ok (default_sensor 0) world0
     = Some (0x800000, (default_sensor 0)\<lparr>lastStatus := 0x40\<rparr>, world1\<lparr>n_reads := 2\<rparr>)"
proof -
  have "decode (i2c_read_at env_ok (n_reads (world1\<lparr>n_reads := 1\<rparr>))) = 0x800000"
    by (simp add: decode_def env_ok_def MPRLS_STATUS_MATHSAT_def MPRLS_STATUS_FAILED_def)
  with readData_ready [OF start_ok wait_ok_poll] show ?thesis by simp
qed

lemma readData_fault_default:
  "readData env_fault (default_sensor 0) world0
     = Some (0xFFFFFFFF, (default_sensor 0)\<lparr>lastStatus := 0x40\<rparr>, world1\<lparr>n_reads := 2\<rparr>)"
proof -
  have h1: "start_conversion env_fault world0 = (0, world1)"
    by (simp add: start_conversion_world0) (simp add: env_fault_def)
  have h2: "wait_ready env_fault 0 (default_sensor 0) world1
              = Some (True, (default_sensor 0)\<lparr>lastStatus := 0x40\<rparr>, world1\<lparr>n_reads := 1\<rparr>)"
    by (simp add: wait_ready_def eoc_default_sensor)
       (subst wait_status_not_busy,
        simp_all add: env_fault_def world1_def MPRLS_STATUS_BUSY_def)
  have "decode (i2c_read_at env_fault (n_reads (world1\<lparr>n_reads := 1\<rparr>))) = 0xFFFFFFFF"
    by (simp add: decode_def env_fault_def MPRLS_STATUS_MATHSAT_def)
  with readData_ready [OF h1 h2] show ?thesis by simp
qed

subsection \<open>The constructor's counts\<close>

lemma counts_of_percent_round:
  assumes "0 \<le> p" and "round (COUNTS_224 * (p / 100)) < 2 ^ 32"
  shows "uint (counts_of_percent p) = round (COUNTS_224 * (p / 100))"
proof -
  let ?x = "COUNTS_224 * (p / 100)"
  have x: "0 \<le> ?x" using assms(1) by (simp add: COUNTS_224_def)
  then have nonneg: "0 \<le> round ?x" by (simp add: round_def)
  have "counts_of_percent p = word_of_int (round ?x)"
    using x by (simp add: counts_of_percent_def cast_u32_def round_def)
  then have "uint (counts_of_percent p) = round ?x mod 2 ^ 32"
    by (simp add: uint_word_of_int)
  with nonneg assms(2) show ?thesis by simp
qed

lemma counts_10: "counts_of_percent 10 = 1677722"
  by (simp add: counts_of_percent_def cast_u32_def COUNTS_224_def)

lemma counts_90: "counts_of_percent 90 = 15099494"
  by (simp add: counts_of_percent_def cast_u32_def COUNTS_224_def)

lemma counts_of_percent_le:
  assumes "0 \<le> p" and "p \<le> 100"
  shows "uint (counts_of_percent p) \<le> 16777216"
proof -
  have "COUNTS_224 * (p / 100) \<le> 16777216"
    using assms by (simp add: COUNTS_224_def)
  then have "round (COUNTS_224 * (p / 100)) \<le> round (16777216 :: real)"
    by (rule round_mono)
  then have le: "round (COUNTS_224 * (p / 100)) \<le> 16777216" by simp
  then have "round (COUNTS_224 * (p / 100)) < 2 ^ 32" by simp
  from counts_of_percent_round [OF assms(1) this] le show ?thesis by simp
qed

lemma counts_of_percent_not_sentinel:
  assumes "0 \<le> p" and "p \<le> 100"
  shows "counts_of_percent p \<noteq> 0xFFFFFFFF"
proof
  assume "counts_of_percent p = 0xFFFFFFFF"
  then have "uint (counts_of_percent p) = 4294967295" by simp
  with counts_of_percent_le [OF assms] show False by simp
qed

lemma default_sensor_fields:
  "OUTPUT_min (default_sensor ls) = 1677722" "OUTPUT_max (default_sensor ls) = 15099494"
  "PSI_min (default_sensor ls) = 0" "PSI_max (default_sensor ls) = 25"
  "K (default_sensor ls) = PSI_to_HPA" "lastStatus (default_sensor ls) = ls"
  by (simp_all add: default_sensor_def Adafruit_MPRLS_def counts_10 counts_90)

subsection \<open>The conversion at the ends of the curve\<close>

lemma psi_span_uint:
  assumes "PSI_min s \<le> PSI_max s"
  shows "uint (psi_span s) = uint (PSI_max s) - uint (PSI_min s)"
proof -
  have a: "uint (ucast (PSI_max s) :: 32 word) = uint (PSI_max s)"
    by (simp add: uint_up_ucast is_up)
  have b: "uint (ucast (PSI_min s) :: 32 word) = uint (PSI_min s)"
    by (simp add: uint_up_ucast is_up)
  have "uint (PSI_min s) \<le> uint (PSI_max s)"
    using assms by (simp add: word_le_def)
  with a b have "uint (ucast (PSI_min s) :: 32 word) \<le> uint (ucast (PSI_max s) :: 32 word)"
    by simp
  then have "uint (ucast (PSI_max s) - ucast (PSI_min s) :: 32 word)
               = uint (ucast (PSI_max s) :: 32 word) - uint (ucast (PSI_min s) :: 32 word)"
    by (simp add: uint_sub_lem)
  with a b show ?thesis by (simp add: psi_span_def)
qed

lemma convert_at_min:
  assumes "OUTPUT_min s \<noteq> 0xFFFFFFFF" and "OUTPUT_max s \<noteq> OUTPUT_min s"
  shows "convert s (OUTPUT_min s) = Num (real_of_int (uint (PSI_min s)) * K s)"
  using assms by (auto simp: convert_def psi_numerator_def)

lemma convert_at_max:
  assumes "OUTPUT_max s \<noteq> 0xFFFFFFFF" and "OUTPUT_max s \<noteq> OUTPUT_min s"
    and "PSI_min s \<le> PSI_max s"
    and "uint (OUTPUT_max s - OUTPUT_min s) * (uint (PSI_max s) - uint (PSI_min s)) < 2 ^ 32"
  shows "convert s (OUTPUT_max s) = Num (real_of_int (uint (PSI_max s)) * K s)"
proof -
  let ?d = "OUTPUT_max s - OUTPUT_min s"
  have d: "uint ?d \<noteq> 0"
    using assms(2) by (simp add: uint_0_iff)
  have "uint ?d * uint (psi_span s) < 2 ^ LENGTH(32)"
    using assms(4) by (simp add: psi_span_uint [OF assms(3)])
  then have "uint (?d * psi_span s) = uint ?d * uint (psi_span s)"
    by (simp only: uint_mult_lem)
  then have num: "uint (psi_numerator s (OUTPUT_max s))
                    = uint ?d * (uint (PSI_max s) - uint (PSI_min s))"
    by (simp add: psi_numerator_def psi_span_uint [OF assms(3)])
  have dr: "real_of_int (uint ?d) \<noteq> 0"
    using d by (simp only: of_int_eq_0_iff) simp
  have "real_of_int (uint (psi_numerator s (OUTPUT_max s))) / real_of_int (uint ?d)
          = real_of_int (uint (PSI_max s)) - real_of_int (uint (PSI_min s))"
    unfolding num of_int_mult of_int_diff using dr by (rule nonzero_mult_div_cancel_left)
  then show ?thesis
    using assms(1,2) by (auto simp: convert_def)
qed

text \<open>With \<^verbatim>\<open>PSI_max = 1000\<close> on the default curve the product at the upper end,
  \<open>13421772 * 1000\<close>, does not fit 32 bits: the code returns about 40, not 1000.\<close>

lemma convert_at_max_overflow:
  "convert (Adafruit_MPRLS 0 (-1) (-1) 0 1000 10 90 1) 15099494 = Num (536870112 / 13421772)"
  by (simp add: Adafruit_MPRLS_def counts_10 counts_90 convert_def psi_numerator_def psi_span_def)

text \<open>On the inverted curve, 90 percent down to 10, the difference of the counts wraps
  around: at the raw count \<^verbatim>\<open>_OUTPUT_max\<close> the code returns about 0.92, not 25.\<close>

lemma convert_inverted_curve:
  "convert (Adafruit_MPRLS 0 (-1) (-1) 0 25 90 10 1) 1677722 = Num (3959422996 / 4281545524)"
  by (simp add: Adafruit_MPRLS_def counts_10 counts_90 convert_def psi_numerator_def psi_span_def)

text \<open>Where nothing wraps around, the code computes the formula of the specification.\<close>

lemma convert_linear:
  assumes "raw \<noteq> 0xFFFFFFFF" and "OUTPUT_min s < OUTPUT_max s" and "OUTPUT_min s \<le> raw"
    and "PSI_min s \<le> PSI_max s"
    and "uint (raw - OUTPUT_min s) * (uint (PSI_max s) - uint (PSI_min s)) < 2 ^ 32"
  shows "convert s raw = Num (spec_pressure s raw)"
proof -
  have r: "uint (raw - OUTPUT_min s) = uint raw - uint (OUTPUT_min s)"
    using assms(3) by (simp add: uint_sub_lem [symmetric] word_le_def)
  have d: "uint (OUTPUT_max s - OUTPUT_min s) = uint (OUTPUT_max s) - uint (OUTPUT_min s)"
    using assms(2) by (simp add: uint_sub_lem [symmetric] word_less_def)
  have "uint (raw - OUTPUT_min s) * uint (psi_span s) < 2 ^ LENGTH(32)"
    using assms(5) by (simp add: psi_span_uint [OF assms(4)])
  then have "uint ((raw - OUTPUT_min s) * psi_span s)
               = uint (raw - OUTPUT_min s) * uint (psi_span s)"
    by (simp only: uint_mult_lem)
  then have num: "uint (psi_numerator s raw)
                    = (uint raw - uint (OUTPUT_min s)) * (uint (PSI_max s) - uint (PSI_min s))"
    by (simp add: psi_numerator_def psi_span_uint [OF assms(4)] r)
  have ne: "OUTPUT_min s \<noteq> OUTPUT_max s"
    using assms(2) by auto
  show ?thesis
    unfolding convert_def spec_pressure_def num d using assms(1) ne by simp
qed

subsection \<open>What readData and begin leave unchanged\<close>

lemma readData_frame:
  assumes "readData e s w = Some (raw, s', w')"
  shows "s' = s\<lparr>lastStatus := lastStatus s'\<rparr>"
proof -
  obtain t w1 where st: "start_conversion e w = (t, w1)"
    by (cases "start_conversion e w")
  from assms st obtain r w2 where wr: "wait_ready e t s w1 = Some (r, s', w2)"
    by (auto simp: readData_def read_frame_def split: option.splits prod.splits if_splits)
  from wait_ready_frame [OF wr] show ?thesis .
qed


lemma n_reads_setup:
  "n_reads (emit (Delay 10) (setup_eoc s (pulse_reset s w))) = n_reads w"
  by (simp add: emit_def setup_eoc_def pulse_reset_def)

lemma status_mask_bits:
  fixes st :: "8 word"
  shows "(st AND MPRLS_STATUS_MASK) = MPRLS_STATUS_POWERED \<longleftrightarrow>
     bit st 6 \<and> \<not> bit st 5 \<and> \<not> bit st 2 \<and> \<not> bit st 0"
proof
  assume eq: "(st AND MPRLS_STATUS_MASK) = MPRLS_STATUS_POWERED"
  have "bit (st AND 0x65) n = bit (0x40 :: 8 word) n" for n
    using eq by (simp add: MPRLS_STATUS_MASK_def MPRLS_STATUS_POWERED_def)
  from this [of 6] this [of 5] this [of 2] this [of 0]
  show "bit st 6 \<and> \<not> bit st 5 \<and> \<not> bit st 2 \<and> \<not> bit st 0"
    by (simp add: bit_and_iff)
next
  assume bits: "bit st 6 \<and> \<not> bit st 5 \<and> \<not> bit st 2 \<and> \<not> bit st 0"
  have "bit (st AND 0x65) n = bit (0x40 :: 8 word) n" if "n < 8" for n
  proof -
    from that consider "n = 0" | "n = 1" | "n = 2" | "n = 3" | "n = 4" | "n = 5" | "n = 6" | "n = 7"
      by arith
    then show ?thesis using bits
      by cases (simp_all add: bit_and_iff)
  qed
  then have "st AND 0x65 = 0x40"
    by (intro bit_word_eqI) simp
  then show "(st AND MPRLS_STATUS_MASK) = MPRLS_STATUS_POWERED"
    by (simp add: MPRLS_STATUS_MASK_def MPRLS_STATUS_POWERED_def)
qed

lemma begin_mprls_result:
  assumes "i2c_begin_ok e"
  shows "fst (begin_mprls e a s w)
           \<longleftrightarrow> (b0 (i2c_read_at e (n_reads w)) AND MPRLS_STATUS_MASK) = MPRLS_STATUS_POWERED"
  using assms
  by (simp add: begin_mprls_def Let_def readStatus_def i2c_read_def n_reads_setup)

section \<open>The claims\<close>

subsection \<open>C1: when readPressure returns NaN\<close>

text \<open>
  \<^bold>\<open>C1.\<close> When \<^verbatim>\<open>readData\<close> returns the raw value \<open>raw\<close>, \<^verbatim>\<open>readPressure\<close> returns too,
  in the same state, and what it returns is \<^verbatim>\<open>NAN\<close> if and only if \<open>raw\<close> is
  \<open>0xFFFFFFFF\<close> or \<^verbatim>\<open>_OUTPUT_max\<close> equals \<^verbatim>\<open>_OUTPUT_min\<close>; otherwise it is the
  number computed. The result is a \<open>cfloat\<close> and nothing else: there is no exception and
  no error code beside it. The scale factor is a finite number here, as everywhere in
  this model.
\<close>

theorem readPressure_nan_iff:
  assumes "readData e s w = Some (raw, s', w')"
  shows "\<exists>p. readPressure e s w = Some (p, s', w') \<and>
           (p = NaN \<longleftrightarrow> raw = 0xFFFFFFFF \<or> OUTPUT_max s = OUTPUT_min s)"
proof -
  from readData_frame [OF assms] have "s' = s\<lparr>lastStatus := lastStatus s'\<rparr>" .
  then have cfg: "OUTPUT_min s' = OUTPUT_min s" "OUTPUT_max s' = OUTPUT_max s"
    by (metis sensor.select_convs sensor.surjective sensor.update_convs(1))+
  have "readPressure e s w = Some (convert s' raw, s', w')"
    using assms by (simp add: readPressure_def)
  moreover have "convert s' raw = NaN \<longleftrightarrow> raw = 0xFFFFFFFF \<or> OUTPUT_max s = OUTPUT_min s"
    by (auto simp: convert_def cfg)
  ultimately show ?thesis by blast
qed

text \<open>The idle hardware \<open>env_ok\<close> delivers the count \<open>0x800000\<close>, half of full scale, which
  the default curve maps to 12.5 PSI.\<close>

theorem readPressure_nan_iff_witness:
  "readPressure env_ok (default_sensor 0) world0
     = Some (Num (25 / 2 * PSI_to_HPA), (default_sensor 0)\<lparr>lastStatus := 0x40\<rparr>,
             world1\<lparr>n_reads := 2\<rparr>) \<and>
   (0x800000 :: 32 word) \<noteq> 0xFFFFFFFF \<and>
   OUTPUT_max (default_sensor 0) \<noteq> OUTPUT_min (default_sensor 0)"
proof -
  have f: "OUTPUT_min (default_sensor 0) = 1677722" "OUTPUT_max (default_sensor 0) = 15099494"
    "PSI_min (default_sensor 0) = 0" "PSI_max (default_sensor 0) = 25"
    "K (default_sensor 0) = PSI_to_HPA"
    by (simp_all add: default_sensor_def Adafruit_MPRLS_def counts_10 counts_90)
  from readPressure_nan_iff [OF readData_ok_default]
  obtain p where p: "readPressure env_ok (default_sensor 0) world0
      = Some (p, (default_sensor 0)\<lparr>lastStatus := 0x40\<rparr>, world1\<lparr>n_reads := 2\<rparr>)"
    and "p \<noteq> NaN"
    by (auto simp: f)
  have "readPressure env_ok (default_sensor 0) world0
      = Some (Num (25 / 2 * PSI_to_HPA), (default_sensor 0)\<lparr>lastStatus := 0x40\<rparr>,
              world1\<lparr>n_reads := 2\<rparr>)"
    by (simp add: readPressure_def readData_ok_default convert_def psi_numerator_def psi_span_def f)
  then show ?thesis by (simp add: f)
qed

subsection \<open>C2: the conversion below the lower end of the curve\<close>

text \<open>
  \<^bold>\<open>C2.\<close> The claim is that \<^verbatim>\<open>readPressure\<close> extrapolates the line through the two ends of
  the curve, also for a raw count below \<^verbatim>\<open>_OUTPUT_min\<close>. The code subtracts and multiplies
  in \<^verbatim>\<open>uint32_t\<close> before it converts to \<^verbatim>\<open>float\<close>. With the default configuration and
  the raw count 1677721, one below \<^verbatim>\<open>_OUTPUT_min\<close>, the difference wraps to \<open>2^32 - 1\<close>
  and the product to \<open>2^32 - 25\<close>: the code returns about 320 PSI (22063 hPa), where the
  line of the specification gives a pressure just below zero. (From \<^verbatim>\<open>_OUTPUT_min\<close>
  upwards, as long as the product fits 32 bits, the two agree: \<open>convert_linear\<close>.)
\<close>

theorem convert_below_min_wraps:
  "psi_numerator (default_sensor 0) 1677721 = 4294967271 \<and>
   convert (default_sensor 0) 1677721 = Num (4294967271 / 13421772 * PSI_to_HPA) \<and>
   spec_pressure (default_sensor 0) 1677721 = - 25 / 13421772 * PSI_to_HPA \<and>
   convert (default_sensor 0) 1677721 \<noteq> Num (spec_pressure (default_sensor 0) 1677721)"
proof -
  have f: "OUTPUT_min (default_sensor 0) = 1677722" "OUTPUT_max (default_sensor 0) = 15099494"
    "PSI_min (default_sensor 0) = 0" "PSI_max (default_sensor 0) = 25"
    "K (default_sensor 0) = PSI_to_HPA"
    by (simp_all add: default_sensor_def Adafruit_MPRLS_def counts_10 counts_90)
  have n: "psi_numerator (default_sensor 0) 1677721 = 4294967271"
    by (simp add: psi_numerator_def psi_span_def f)
  have c: "convert (default_sensor 0) 1677721 = Num (4294967271 / 13421772 * PSI_to_HPA)"
    by (simp add: convert_def n f)
  have sp: "spec_pressure (default_sensor 0) 1677721 = - 25 / 13421772 * PSI_to_HPA"
    by (simp add: spec_pressure_def f)
  have "(4294967271 / 13421772 * PSI_to_HPA :: real) \<noteq> - 25 / 13421772 * PSI_to_HPA"
    by (simp add: PSI_to_HPA_def)
  with n c sp show ?thesis by simp
qed

subsection \<open>C3: the ends of the curve\<close>

text \<open>
  \<^bold>\<open>C3, as stated,\<close> fails for two percentages that differ and round to the same count:
  10 and \<open>10 + 2^-20\<close> both give 1677722, the guard \<^verbatim>\<open>_OUTPUT_min == _OUTPUT_max\<close>
  holds, and the result at that count is \<^verbatim>\<open>NAN\<close>, not \<open>psiMin * scaleFactor\<close>.
\<close>

theorem endpoint_counterexample:
  "(10 + 1 / 2 ^ 20 :: real) \<noteq> 10 \<and>
   convert (Adafruit_MPRLS 0 (-1) (-1) 0 25 10 (10 + 1 / 2 ^ 20) PSI_to_HPA)
       (OUTPUT_min (Adafruit_MPRLS 0 (-1) (-1) 0 25 10 (10 + 1 / 2 ^ 20) PSI_to_HPA)) = NaN \<and>
   convert (Adafruit_MPRLS 0 (-1) (-1) 0 25 10 (10 + 1 / 2 ^ 20) PSI_to_HPA)
       (OUTPUT_min (Adafruit_MPRLS 0 (-1) (-1) 0 25 10 (10 + 1 / 2 ^ 20) PSI_to_HPA))
     \<noteq> Num (0 * PSI_to_HPA)"
proof -
  have "counts_of_percent (10 + 1 / 2 ^ 20) = 1677722"
    by (simp add: counts_of_percent_def cast_u32_def COUNTS_224_def)
  then show ?thesis
    by (simp add: Adafruit_MPRLS_def counts_10 convert_def)
qed

text \<open>
  \<^bold>\<open>C3, amended.\<close> For percentages between 0 and 100 whose counts differ, the raw count
  \<^verbatim>\<open>_OUTPUT_min\<close> gives \<open>psiMin * scaleFactor\<close>; and when
  \<open>outputMinCounts < outputMaxCounts\<close>, \<open>psiMin \<le> psiMax\<close> and the product
  \<open>(outputMaxCounts - outputMinCounts) * (psiMax - psiMin)\<close> of the two spans, as a product of
  integers, is below \<open>2^32\<close>, the raw count \<^verbatim>\<open>_OUTPUT_max\<close> gives \<open>psiMax * scaleFactor\<close>.
\<close>

theorem endpoints:
  assumes "0 \<le> pmin" and "pmin \<le> 100" and "0 \<le> pmax" and "pmax \<le> 100"
    and "s = Adafruit_MPRLS ls rp ep lo hi pmin pmax k"
    and "OUTPUT_max s \<noteq> OUTPUT_min s"
  shows "convert s (OUTPUT_min s) = Num (real_of_int (uint lo) * k) \<and>
         (OUTPUT_min s < OUTPUT_max s \<and> lo \<le> hi \<and>
          (uint (OUTPUT_max s) - uint (OUTPUT_min s)) * (uint hi - uint lo) < 2 ^ 32
            \<longrightarrow> convert s (OUTPUT_max s) = Num (real_of_int (uint hi) * k))"
proof -
  have fields: "PSI_min s = lo" "PSI_max s = hi" "K s = k"
    "OUTPUT_min s = counts_of_percent pmin" "OUTPUT_max s = counts_of_percent pmax"
    by (simp_all add: assms(5) Adafruit_MPRLS_def)
  have lo_ok: "OUTPUT_min s \<noteq> 0xFFFFFFFF"
    unfolding fields by (rule counts_of_percent_not_sentinel [OF assms(1,2)])
  have hi_ok: "OUTPUT_max s \<noteq> 0xFFFFFFFF"
    unfolding fields by (rule counts_of_percent_not_sentinel [OF assms(3,4)])
  from convert_at_min [OF lo_ok assms(6)]
  have "convert s (OUTPUT_min s) = Num (real_of_int (uint lo) * k)"
    by (simp add: fields(1,3))
  moreover have "convert s (OUTPUT_max s) = Num (real_of_int (uint hi) * k)"
    if lt: "OUTPUT_min s < OUTPUT_max s" and le: "lo \<le> hi"
      and fits: "(uint (OUTPUT_max s) - uint (OUTPUT_min s)) * (uint hi - uint lo) < 2 ^ 32"
  proof -
    have "uint (OUTPUT_max s - OUTPUT_min s) = uint (OUTPUT_max s) - uint (OUTPUT_min s)"
      using lt by (simp add: uint_sub_lem [symmetric] word_less_def)
    with fits have "uint (OUTPUT_max s - OUTPUT_min s) * (uint (PSI_max s) - uint (PSI_min s)) < 2 ^ 32"
      by (simp add: fields(1,2))
    from convert_at_max [OF hi_ok assms(6) _ this] le show ?thesis
      by (simp add: fields(1,2,3))
  qed
  ultimately show ?thesis by blast
qed

theorem endpoints_witness:
  "convert (default_sensor 0) 1677722 = Num 0 \<and>
   convert (default_sensor 0) 15099494 = Num (25 * PSI_to_HPA)"
proof -
  have s: "default_sensor 0 = Adafruit_MPRLS 0 (-1) (-1) 0 25 10 90 PSI_to_HPA"
    by (simp add: default_sensor_def)
  have f: "OUTPUT_min (default_sensor 0) = 1677722" "OUTPUT_max (default_sensor 0) = 15099494"
    by (simp_all add: default_sensor_def Adafruit_MPRLS_def counts_10 counts_90)
  have ne: "OUTPUT_max (default_sensor 0) \<noteq> OUTPUT_min (default_sensor 0)"
    by (simp add: f)
  have a: "(0 :: real) \<le> 10" "(10 :: real) \<le> 100" "(0 :: real) \<le> 90" "(90 :: real) \<le> 100"
    by simp_all
  from endpoints [OF a s ne] show ?thesis
    by (simp add: f)
qed

subsection \<open>C4: the time-out\<close>



subsection \<open>C5: a fault bit in the frame gives the sentinel\<close>

text \<open>
  \<^bold>\<open>C5.\<close> Once the wait has ended with the sensor ready, \<^verbatim>\<open>readData\<close> reads a frame of
  four bytes. If bit 0 (math saturation) or bit 2 (integrity failed) of its status byte
  is set, \<^verbatim>\<open>readData\<close> returns \<open>0xFFFFFFFF\<close>, whatever the three data bytes are.
\<close>

theorem readData_fault_sentinel:
  assumes "start_conversion e w = (t, w1)"
    and "wait_ready e t s w1 = Some (True, s2, w2)"
    and "bit (b0 (i2c_read_at e (n_reads w2))) 0 \<or> bit (b0 (i2c_read_at e (n_reads w2))) 2"
  shows "readData e s w = Some (0xFFFFFFFF, s2, w2\<lparr>n_reads := Suc (n_reads w2)\<rparr>)"
  using readData_ready [OF assms(1,2)] decode_fault [OF assms(3)] by simp

text \<open>On the hardware \<open>env_fault\<close> the first status read finds the sensor idle, and the
  frame that follows has the status \<open>0x41\<close> and the data bytes \<open>0x12 0x34 0x56\<close>.\<close>

theorem readData_fault_sentinel_witness:
  "start_conversion env_fault world0 = (0, world1) \<and>
   wait_ready env_fault 0 (default_sensor 0) world1
     = Some (True, (default_sensor 0)\<lparr>lastStatus := 0x40\<rparr>, world1\<lparr>n_reads := 1\<rparr>) \<and>
   bit (b0 (i2c_read_at env_fault (n_reads (world1\<lparr>n_reads := 1\<rparr>)))) 0 \<and>
   readData env_fault (default_sensor 0) world0
     = Some (0xFFFFFFFF, (default_sensor 0)\<lparr>lastStatus := 0x40\<rparr>, world1\<lparr>n_reads := 2\<rparr>)"
proof -
  have h1: "start_conversion env_fault world0 = (0, world1)"
    by (simp add: start_conversion_world0) (simp add: env_fault_def)
  have h2: "wait_ready env_fault 0 (default_sensor 0) world1
              = Some (True, (default_sensor 0)\<lparr>lastStatus := 0x40\<rparr>, world1\<lparr>n_reads := 1\<rparr>)"
    by (simp add: wait_ready_def eoc_default_sensor)
       (subst wait_status_not_busy,
        simp_all add: env_fault_def world1_def MPRLS_STATUS_BUSY_def)
  have h3: "bit (b0 (i2c_read_at env_fault (n_reads (world1\<lparr>n_reads := 1\<rparr>)))) 0"
    by (simp add: env_fault_def)
  from readData_fault_sentinel [OF h1 h2 disjI1 [OF h3]] h1 h2 h3
  show ?thesis by simp
qed

subsection \<open>C6: the status check of begin\<close>

text \<open>
  \<^bold>\<open>C6.\<close> When the bus device opens, \<^verbatim>\<open>begin\<close> returns true if and only if the status
  byte it reads, masked with \<open>0x65\<close>, equals \<open>0x40\<close>: the powered bit is set and the busy,
  integrity and saturation bits are clear.
\<close>

theorem begin_status_check:
  assumes "i2c_begin_ok e"
  shows "(fst (begin_mprls e a s w) \<longleftrightarrow> (b0 (i2c_read_at e (n_reads w)) AND 0x65) = 0x40) \<and>
         (fst (begin_mprls e a s w) \<longleftrightarrow>
            bit (b0 (i2c_read_at e (n_reads w))) 6 \<and> \<not> bit (b0 (i2c_read_at e (n_reads w))) 5 \<and>
            \<not> bit (b0 (i2c_read_at e (n_reads w))) 2 \<and> \<not> bit (b0 (i2c_read_at e (n_reads w))) 0)"
  using begin_mprls_result [OF assms, of a s w] status_mask_bits [of "b0 (i2c_read_at e (n_reads w))"]
  by (simp add: MPRLS_STATUS_MASK_def MPRLS_STATUS_POWERED_def)

theorem begin_status_check_witness:
  "i2c_begin_ok env_ok \<and> fst (begin_mprls env_ok MPRLS_DEFAULT_ADDR (default_sensor 0) world0) \<and>
   (b0 (i2c_read_at env_ok (n_reads world0)) AND 0x65) = 0x40 \<and>
   i2c_begin_ok env_stuck \<and> \<not> fst (begin_mprls env_stuck MPRLS_DEFAULT_ADDR (default_sensor 0) world0) \<and>
   (b0 (i2c_read_at env_stuck (n_reads world0)) AND 0x65) = 0x60"
proof -
  have ok: "i2c_begin_ok env_ok" by (simp add: env_ok_def)
  have stuck: "i2c_begin_ok env_stuck" by (simp add: env_stuck_def)
  have a: "(b0 (i2c_read_at env_ok (n_reads world0)) AND 0x65) = 0x40"
    by (simp add: env_ok_def)
  have b: "(b0 (i2c_read_at env_stuck (n_reads world0)) AND 0x65) = 0x60"
    by (simp add: env_stuck_def)
  from begin_status_check [OF ok, of MPRLS_DEFAULT_ADDR "default_sensor 0" world0]
    begin_status_check [OF stuck, of MPRLS_DEFAULT_ADDR "default_sensor 0" world0]
    ok stuck a b
  show ?thesis by simp
qed

subsection \<open>C7: lastStatus during the wait\<close>

text \<open>
  \<^bold>\<open>C7.\<close> Let the wait of \<^verbatim>\<open>readData\<close> have gone through \<open>n\<close> iterations, none of which
  found the sensor ready or the time expired. Without an end-of-conversion pin, the next
  iteration reads the status from the bus and assigns the byte to \<^verbatim>\<open>lastStatus\<close>, whether
  it then leaves the loop (the busy bit is clear), returns the time-out, or goes round
  again: whenever the wait ends, after \<open>n + 1\<close> status reads, \<^verbatim>\<open>lastStatus\<close> is the byte
  of the last of them. With an end-of-conversion pin, the next iteration samples the pin,
  reads nothing from the bus, and ends or goes round again with the sensor object, and so
  \<^verbatim>\<open>lastStatus\<close>, as it was.
\<close>

theorem wait_ready_lastStatus:
  assumes "if eoc s = -1
           then \<forall>j<n. bit (b0 (i2c_read_at e (n_reads w + j))) 5 \<and>
                       \<not> MPRLS_READ_TIMEOUT < millis_at e (n_millis w + j) - t
           else \<forall>j<n. \<not> digitalRead_at e (eoc s) (n_pin w + j) \<and>
                       \<not> MPRLS_READ_TIMEOUT < millis_at e (n_millis w + j) - t"
  shows "wait_ready e t s w =
     (if eoc s = -1
      then (if \<not> bit (b0 (i2c_read_at e (n_reads w + n))) 5
            then Some (True, s\<lparr>lastStatus := b0 (i2c_read_at e (n_reads w + n))\<rparr>,
                       w\<lparr>n_reads := n_reads w + Suc n, n_millis := n_millis w + n\<rparr>)
            else if MPRLS_READ_TIMEOUT < millis_at e (n_millis w + n) - t
            then Some (False, s\<lparr>lastStatus := b0 (i2c_read_at e (n_reads w + n))\<rparr>,
                       w\<lparr>n_reads := n_reads w + Suc n, n_millis := n_millis w + Suc n\<rparr>)
            else wait_ready e t (s\<lparr>lastStatus := b0 (i2c_read_at e (n_reads w + n))\<rparr>)
                   (w\<lparr>n_reads := n_reads w + Suc n, n_millis := n_millis w + Suc n\<rparr>))
      else (if digitalRead_at e (eoc s) (n_pin w + n)
            then Some (True, s, w\<lparr>n_pin := n_pin w + Suc n, n_millis := n_millis w + n\<rparr>)
            else if MPRLS_READ_TIMEOUT < millis_at e (n_millis w + n) - t
            then Some (False, s, w\<lparr>n_pin := n_pin w + Suc n, n_millis := n_millis w + Suc n\<rparr>)
            else wait_ready e t s
                   (w\<lparr>n_pin := n_pin w + Suc n, n_millis := n_millis w + Suc n\<rparr>)))"
proof (cases "eoc s = -1")
  case True
  with assms have "\<forall>j<n. bit (b0 (i2c_read_at e (n_reads w + j))) 5 \<and>
                       \<not> MPRLS_READ_TIMEOUT < millis_at e (n_millis w + j) - t"
    by simp
  from wait_status_unfold [OF this, of s] True show ?thesis
    by (simp add: wait_ready_def)
next
  case False
  with assms have "\<forall>j<n. \<not> digitalRead_at e (eoc s) (n_pin w + j) \<and>
                       \<not> MPRLS_READ_TIMEOUT < millis_at e (n_millis w + j) - t"
    by simp
  from wait_eoc_unfold [OF this] False show ?thesis
    by (simp add: wait_ready_def)
qed

text \<open>On \<open>env_poll\<close> the polls read \<open>0x60\<close>, \<open>0x70\<close>, \<open>0x40\<close>: the wait ends ready after
  three reads with \<^verbatim>\<open>lastStatus = 0x40\<close>. On \<open>env_stuck\<close> it ends in the time-out after
  three reads of \<open>0x60\<close>. With the pin, the same two runs leave \<^verbatim>\<open>lastStatus\<close> at 0 and
  the count of bus reads unchanged.\<close>

theorem wait_ready_lastStatus_witness:
  "wait_ready env_poll 0 (default_sensor 0) world1
     = Some (True, (default_sensor 0)\<lparr>lastStatus := 0x40\<rparr>, world1\<lparr>n_reads := 3, n_millis := 3\<rparr>) \<and>
   wait_ready env_stuck 0 (default_sensor 0) world1
     = Some (False, (default_sensor 0)\<lparr>lastStatus := 0x60\<rparr>, world1\<lparr>n_reads := 3, n_millis := 4\<rparr>) \<and>
   wait_ready env_poll 0 sensor_eoc world1
     = Some (True, sensor_eoc, world1\<lparr>n_pin := 3, n_millis := 3\<rparr>) \<and>
   wait_ready env_stuck 0 sensor_eoc world1
     = Some (False, sensor_eoc, world1\<lparr>n_pin := 3, n_millis := 4\<rparr>) \<and>
   lastStatus sensor_eoc = 0"
proof -
  have h1: "if eoc (default_sensor 0) = -1
           then \<forall>j<2. bit (b0 (i2c_read_at env_poll (n_reads world1 + j))) 5 \<and>
                       \<not> MPRLS_READ_TIMEOUT < millis_at env_poll (n_millis world1 + j) - 0
           else \<forall>j<2. \<not> digitalRead_at env_poll (eoc (default_sensor 0)) (n_pin world1 + j) \<and>
                       \<not> MPRLS_READ_TIMEOUT < millis_at env_poll (n_millis world1 + j) - 0"
    by (auto simp: eoc_default_sensor env_poll_def world1_def MPRLS_READ_TIMEOUT_def
          dest!: less_2_cases)
  have h2: "if eoc (default_sensor 0) = -1
           then \<forall>j<2. bit (b0 (i2c_read_at env_stuck (n_reads world1 + j))) 5 \<and>
                       \<not> MPRLS_READ_TIMEOUT < millis_at env_stuck (n_millis world1 + j) - 0
           else \<forall>j<2. \<not> digitalRead_at env_stuck (eoc (default_sensor 0)) (n_pin world1 + j) \<and>
                       \<not> MPRLS_READ_TIMEOUT < millis_at env_stuck (n_millis world1 + j) - 0"
    by (auto simp: eoc_default_sensor env_stuck_def world1_def MPRLS_READ_TIMEOUT_def
          dest!: less_2_cases)
  have h3: "if eoc sensor_eoc = -1
           then \<forall>j<2. bit (b0 (i2c_read_at env_poll (n_reads world1 + j))) 5 \<and>
                       \<not> MPRLS_READ_TIMEOUT < millis_at env_poll (n_millis world1 + j) - 0
           else \<forall>j<2. \<not> digitalRead_at env_poll (eoc sensor_eoc) (n_pin world1 + j) \<and>
                       \<not> MPRLS_READ_TIMEOUT < millis_at env_poll (n_millis world1 + j) - 0"
    by (auto simp: eoc_sensor_eoc env_poll_def world1_def MPRLS_READ_TIMEOUT_def
          dest!: less_2_cases)
  have h4: "if eoc sensor_eoc = -1
           then \<forall>j<2. bit (b0 (i2c_read_at env_stuck (n_reads world1 + j))) 5 \<and>
                       \<not> MPRLS_READ_TIMEOUT < millis_at env_stuck (n_millis world1 + j) - 0
           else \<forall>j<2. \<not> digitalRead_at env_stuck (eoc sensor_eoc) (n_pin world1 + j) \<and>
                       \<not> MPRLS_READ_TIMEOUT < millis_at env_stuck (n_millis world1 + j) - 0"
    by (auto simp: eoc_sensor_eoc env_stuck_def world1_def MPRLS_READ_TIMEOUT_def
          dest!: less_2_cases)
  have a: "wait_ready env_poll 0 (default_sensor 0) world1
     = Some (True, (default_sensor 0)\<lparr>lastStatus := 0x40\<rparr>, world1\<lparr>n_reads := 3, n_millis := 3\<rparr>)"
    using wait_ready_lastStatus [OF h1]
    by (simp add: eoc_default_sensor) (simp add: env_poll_def world1_def)
  have b: "wait_ready env_stuck 0 (default_sensor 0) world1
     = Some (False, (default_sensor 0)\<lparr>lastStatus := 0x60\<rparr>, world1\<lparr>n_reads := 3, n_millis := 4\<rparr>)"
    using wait_ready_lastStatus [OF h2]
    by (simp add: eoc_default_sensor) (simp add: env_stuck_def world1_def MPRLS_READ_TIMEOUT_def)
  have c: "wait_ready env_poll 0 sensor_eoc world1
     = Some (True, sensor_eoc, world1\<lparr>n_pin := 3, n_millis := 3\<rparr>)"
    using wait_ready_lastStatus [OF h3]
    by (simp add: eoc_sensor_eoc) (simp add: env_poll_def world1_def)
  have d: "wait_ready env_stuck 0 sensor_eoc world1
     = Some (False, sensor_eoc, world1\<lparr>n_pin := 3, n_millis := 4\<rparr>)"
    using wait_ready_lastStatus [OF h4]
    by (simp add: eoc_sensor_eoc) (simp add: env_stuck_def world1_def MPRLS_READ_TIMEOUT_def)
  have e: "lastStatus sensor_eoc = 0"
    by (simp add: sensor_eoc_def Adafruit_MPRLS_def)
  from a b c d e show ?thesis by simp
qed

subsection \<open>C8: lastStatus after a read\<close>

text \<open>
  \<^bold>\<open>C8.\<close> The claim is that every status or data read leaves its status byte in
  \<^verbatim>\<open>lastStatus\<close>. The code assigns \<^verbatim>\<open>lastStatus\<close> in the polling loop only. With
  \<^verbatim>\<open>lastStatus\<close> holding 0: \<^verbatim>\<open>readStatus\<close> returns \<open>0x40\<close> and leaves 0;
  \<^verbatim>\<open>begin\<close> reads the status \<open>0x60\<close>, fails, and leaves 0; and when the frame of the
  final read has the status \<open>0x41\<close>, \<^verbatim>\<open>readData\<close> returns the sentinel with
  \<^verbatim>\<open>lastStatus\<close> still \<open>0x40\<close>, the byte of the last poll.
\<close>

theorem lastStatus_not_updated:
  "fst (readStatus env_ok (default_sensor 0) world0) = 0x40 \<and>
   lastStatus (fst (snd (readStatus env_ok (default_sensor 0) world0))) = 0 \<and>
   \<not> fst (begin_mprls env_stuck MPRLS_DEFAULT_ADDR (default_sensor 0) world0) \<and>
   lastStatus (fst (snd (begin_mprls env_stuck MPRLS_DEFAULT_ADDR (default_sensor 0) world0))) = 0 \<and>
   readData env_fault (default_sensor 0) world0
     = Some (0xFFFFFFFF, (default_sensor 0)\<lparr>lastStatus := 0x40\<rparr>, world1\<lparr>n_reads := 2\<rparr>) \<and>
   b0 (i2c_read_at env_fault 1) = 0x41"
proof -
  have ls: "lastStatus (default_sensor 0) = 0"
    by (simp add: default_sensor_def Adafruit_MPRLS_def)
  have a: "fst (readStatus env_ok (default_sensor 0) world0) = 0x40"
    by (simp add: readStatus_def i2c_read_def env_ok_def)
  have b: "lastStatus (fst (snd (readStatus env_ok (default_sensor 0) world0))) = 0"
    by (simp add: readStatus_def i2c_read_def ls)
  have c: "\<not> fst (begin_mprls env_stuck MPRLS_DEFAULT_ADDR (default_sensor 0) world0)"
    by (simp add: begin_mprls_def Let_def readStatus_def i2c_read_def n_reads_setup)
       (simp add: env_stuck_def world0_def MPRLS_STATUS_MASK_def MPRLS_STATUS_POWERED_def)
  have d: "lastStatus (fst (snd (begin_mprls env_stuck MPRLS_DEFAULT_ADDR (default_sensor 0) world0))) = 0"
    by (simp add: begin_mprls_def Let_def readStatus_def i2c_read_def ls)
  have e: "b0 (i2c_read_at env_fault 1) = 0x41"
    by (simp add: env_fault_def)
  from a b c d e readData_fault_default show ?thesis by simp
qed

subsection \<open>C9: the counts the constructor computes\<close>

text \<open>
  \<^bold>\<open>C9.\<close> For a percentage that is not negative and whose count fits 32 bits, the
  constructor stores \<open>round (2^24 * (percent / 100))\<close>; the defaults 10 and 90 give 1677722
  and 15099494. The constructor is a function of its arguments alone: it takes no
  environment and returns no result but the object.
\<close>

theorem constructor_counts:
  assumes "0 \<le> pmin" and "round (COUNTS_224 * (pmin / 100)) < 2 ^ 32"
    and "0 \<le> pmax" and "round (COUNTS_224 * (pmax / 100)) < 2 ^ 32"
  shows "uint (OUTPUT_min (Adafruit_MPRLS ls rp ep lo hi pmin pmax k))
           = round (2 ^ 24 * (pmin / 100)) \<and>
         uint (OUTPUT_max (Adafruit_MPRLS ls rp ep lo hi pmin pmax k))
           = round (2 ^ 24 * (pmax / 100)) \<and>
         OUTPUT_min (default_sensor ls) = 1677722 \<and>
         OUTPUT_max (default_sensor ls) = 15099494"
  using counts_of_percent_round [OF assms(1,2)] counts_of_percent_round [OF assms(3,4)]
  by (simp add: Adafruit_MPRLS_def default_sensor_def counts_10 counts_90 COUNTS_224_def)

theorem constructor_counts_witness:
  "uint (OUTPUT_min (Adafruit_MPRLS 0 (-1) (-1) 0 25 10 90 PSI_to_HPA)) = 1677722 \<and>
   uint (OUTPUT_max (Adafruit_MPRLS 0 (-1) (-1) 0 25 10 90 PSI_to_HPA)) = 15099494 \<and>
   round (2 ^ 24 * ((10 :: real) / 100)) = 1677722 \<and>
   round (2 ^ 24 * ((90 :: real) / 100)) = 15099494"
proof -
  have r10: "round (COUNTS_224 * ((10 :: real) / 100)) = 1677722"
    by (simp add: COUNTS_224_def round_def)
  have r90: "round (COUNTS_224 * ((90 :: real) / 100)) = 15099494"
    by (simp add: COUNTS_224_def round_def)
  have a: "(0 :: real) \<le> 10" by simp
  have b: "round (COUNTS_224 * ((10 :: real) / 100)) < 2 ^ 32" unfolding r10 by simp
  have c: "(0 :: real) \<le> 90" by simp
  have d: "round (COUNTS_224 * ((90 :: real) / 100)) < 2 ^ 32" unfolding r90 by simp
  from constructor_counts [OF a b c d, where ls = 0 and rp = "-1" and ep = "-1" and lo = 0
      and hi = 25 and k = PSI_to_HPA] r10 r90
  show ?thesis by (simp add: COUNTS_224_def)
qed

subsection \<open>C10: a successful read is below \<open>2^24\<close>\<close>

text \<open>
  \<^bold>\<open>C10.\<close> When the wait ends with the sensor ready and neither fault bit is set in the
  frame, \<^verbatim>\<open>readData\<close> returns the three data bytes assembled, a value below \<open>2^24\<close> and
  so never the sentinel \<open>0xFFFFFFFF\<close>.
\<close>

theorem readData_success_24_bits:
  assumes "start_conversion e w = (t, w1)"
    and "wait_ready e t s w1 = Some (True, s2, w2)"
    and "\<not> bit (b0 (i2c_read_at e (n_reads w2))) 0"
    and "\<not> bit (b0 (i2c_read_at e (n_reads w2))) 2"
  shows "\<exists>v. readData e s w = Some (v, s2, w2\<lparr>n_reads := Suc (n_reads w2)\<rparr>) \<and>
           v = push_bit 16 (ucast (b1 (i2c_read_at e (n_reads w2))))
                 OR push_bit 8 (ucast (b2 (i2c_read_at e (n_reads w2))))
                 OR ucast (b3 (i2c_read_at e (n_reads w2))) \<and>
           v < 2 ^ 24 \<and> v \<noteq> 0xFFFFFFFF"
proof -
  let ?f = "i2c_read_at e (n_reads w2)"
  let ?v = "push_bit 16 (ucast (b1 ?f)) OR push_bit 8 (ucast (b2 ?f)) OR ucast (b3 ?f) :: 32 word"
  have "readData e s w = Some (?v, s2, w2\<lparr>n_reads := Suc (n_reads w2)\<rparr>)"
    using readData_ready [OF assms(1,2)] decode_ok [OF assms(3,4)] by simp
  moreover have less: "?v < 2 ^ 24" by (rule assemble_less)
  moreover have "?v \<noteq> 0xFFFFFFFF"
  proof
    assume "?v = 0xFFFFFFFF"
    with less show False by simp
  qed
  ultimately show ?thesis by blast
qed

theorem readData_success_24_bits_witness:
  "readData env_ok (default_sensor 0) world0
     = Some (0x800000, (default_sensor 0)\<lparr>lastStatus := 0x40\<rparr>, world1\<lparr>n_reads := 2\<rparr>) \<and>
   (0x800000 :: 32 word) < 2 ^ 24 \<and> (0x800000 :: 32 word) \<noteq> 0xFFFFFFFF"
proof -
  have h3: "\<not> bit (b0 (i2c_read_at env_ok (n_reads (world1\<lparr>n_reads := 1\<rparr>)))) 0"
    by (simp add: env_ok_def)
  have h4: "\<not> bit (b0 (i2c_read_at env_ok (n_reads (world1\<lparr>n_reads := 1\<rparr>)))) 2"
    by (simp add: env_ok_def)
  have v: "push_bit 16 (ucast (b1 (i2c_read_at env_ok (n_reads (world1\<lparr>n_reads := 1\<rparr>)))))
             OR push_bit 8 (ucast (b2 (i2c_read_at env_ok (n_reads (world1\<lparr>n_reads := 1\<rparr>)))))
             OR ucast (b3 (i2c_read_at env_ok (n_reads (world1\<lparr>n_reads := 1\<rparr>)))) = (0x800000 :: 32 word)"
    by (simp add: env_ok_def)
  from readData_success_24_bits [OF start_ok wait_ok_poll h3 h4] v
  show ?thesis by auto
qed

end
